theory Spec2Isabelle
  imports Complex_Main "HOL-Library.Sublist"
begin

section \<open>Strings\<close>

text \<open>
  The tools work on JavaScript strings. They are modelled as \<open>string\<close>, read as ASCII
  text: \<open>toLowerCase\<close> maps \<open>A\<close>..\<open>Z\<close> to \<open>a\<close>..\<open>z\<close> and leaves every other
  character alone, and the white space removed by \<open>trim\<close> and matched by \<open>\s\<close> is
  tab, line feed, vertical tab, form feed, carriage return and space. A letter and its
  other case differ by 32, which is bit 5 of the character.
\<close>

definition isSpace :: "char \<Rightarrow> bool" where
  "isSpace c = (let n = (of_char c :: nat) in (9 \<le> n \<and> n \<le> 13) \<or> n = 32)"

definition isUpper :: "char \<Rightarrow> bool" where
  "isUpper c = (let n = (of_char c :: nat) in 65 \<le> n \<and> n \<le> 90)"

definition isLower :: "char \<Rightarrow> bool" where
  "isLower c = (let n = (of_char c :: nat) in 97 \<le> n \<and> n \<le> 122)"

definition toLowerChar :: "char \<Rightarrow> char" where
  "toLowerChar c =
     (if isUpper c
      then (case c of Char b0 b1 b2 b3 b4 b5 b6 b7 \<Rightarrow> Char b0 b1 b2 b3 b4 True b6 b7)
      else c)"

definition toUpperChar :: "char \<Rightarrow> char" where
  "toUpperChar c =
     (if isLower c
      then (case c of Char b0 b1 b2 b3 b4 b5 b6 b7 \<Rightarrow> Char b0 b1 b2 b3 b4 False b6 b7)
      else c)"

definition toLowerCase :: "string \<Rightarrow> string" where
  "toLowerCase s = map toLowerChar s"

definition toUpperCase :: "string \<Rightarrow> string" where
  "toUpperCase s = map toUpperChar s"

definition trim :: "string \<Rightarrow> string" where
  "trim s = rev (dropWhile isSpace (rev (dropWhile isSpace s)))"

text \<open>\<open>s.includes(x)\<close>: \<open>x\<close> occurs in \<open>s\<close> as a contiguous substring.\<close>

definition strIncludes :: "string \<Rightarrow> string \<Rightarrow> bool" where
  "strIncludes s x = sublist x s"

definition startsWith :: "string \<Rightarrow> string \<Rightarrow> bool" where
  "startsWith s x = prefix x s"

section \<open>Regular expressions\<close>

text \<open>
  The command grammars are JavaScript regular expressions, all with the flag \<open>i\<close>.
  \<open>rmatch\<close> is the backtracking matcher for the constructs they use: it returns every way
  the expression matches a prefix of the input, in the order in which the engine tries
  them (alternatives left to right, greedy repetition longest first), each with the
  capture groups closed so far and the rest of the input. \<open>regexMatch\<close> is
  \<open>input.match(pattern)\<close>: the first result at the leftmost position that has one; it
  returns the capture groups.
\<close>

type_synonym charClass = "(char \<times> char) list"

datatype re =
    Lit string
  | Chars charClass nat "nat option"
  | Seq re re
  | Alt re re
  | Opt re
  | Grp re

definition inClass :: "charClass \<Rightarrow> char \<Rightarrow> bool" where
  "inClass cls c =
     list_ex (\<lambda>r. (of_char (fst r) :: nat) \<le> of_char c \<and> (of_char c :: nat) \<le> of_char (snd r))
       cls"

text \<open>Under the flag \<open>i\<close> a character is in a class when one of its two cases is.\<close>

definition inClassI :: "charClass \<Rightarrow> char \<Rightarrow> bool" where
  "inClassI cls c = (inClass cls (toLowerChar c) \<or> inClass cls (toUpperChar c))"

type_synonym mstate = "string list \<times> string"

primrec rmatch :: "re \<Rightarrow> mstate \<Rightarrow> mstate list" where
  "rmatch (Lit l) st =
     (if length l \<le> length (snd st) \<and> toUpperCase (take (length l) (snd st)) = toUpperCase l
      then [(fst st, drop (length l) (snd st))] else [])"
| "rmatch (Chars cls lo hi) st =
     (let run = length (takeWhile (inClassI cls) (snd st));
          mx = (case hi of None \<Rightarrow> run | Some h \<Rightarrow> min h run)
      in map (\<lambda>k. (fst st, drop k (snd st))) (rev [lo ..< Suc mx]))"
| "rmatch (Seq a b) st = concat (map (rmatch b) (rmatch a st))"
| "rmatch (Alt a b) st = rmatch a st @ rmatch b st"
| "rmatch (Opt a) st = rmatch a st @ [st]"
| "rmatch (Grp a) st =
     map (\<lambda>r. (take (length (fst st)) (fst r)
                  @ [take (length (snd st) - length (snd r)) (snd st)]
                  @ drop (length (fst st)) (fst r), snd r))
         (rmatch a st)"

fun regexMatch :: "re \<Rightarrow> string \<Rightarrow> string list option" where
  "regexMatch r [] = (case rmatch r ([], []) of m # _ \<Rightarrow> Some (fst m) | [] \<Rightarrow> None)"
| "regexMatch r (c # s) =
     (case rmatch r ([], c # s) of m # _ \<Rightarrow> Some (fst m) | [] \<Rightarrow> regexMatch r s)"

declare regexMatch.simps [simp del]

text \<open>\<open>match[i]\<close> for \<open>i \<ge> 1\<close>: the text of the \<open>i\<close>-th capture group.\<close>

definition group :: "string list \<Rightarrow> nat \<Rightarrow> string" where
  "group m i = (if 1 \<le> i \<and> i \<le> length m then m ! (i - 1) else [])"

fun seqs :: "re list \<Rightarrow> re" where
  "seqs [] = Lit []"
| "seqs [r] = r"
| "seqs (r # rs) = Seq r (seqs rs)"

text \<open>\<open>\s\<close>, \<open>\d\<close>, \<open>[a-zA-Z0-9]\<close>, \<open>[a-zA-Z]\<close> and the base58 alphabet.\<close>

definition spaceClass :: charClass where
  "spaceClass = [(CHR 0x09, CHR 0x0D), (CHR '' '', CHR '' '')]"

definition digitClass :: charClass where
  "digitClass = [(CHR ''0'', CHR ''9'')]"

definition alnumClass :: charClass where
  "alnumClass = [(CHR ''a'', CHR ''z''), (CHR ''A'', CHR ''Z''), (CHR ''0'', CHR ''9'')]"

definition letterClass :: charClass where
  "letterClass = [(CHR ''a'', CHR ''z''), (CHR ''A'', CHR ''Z'')]"

definition base58 :: charClass where
  "base58 = [(CHR ''1'', CHR ''9''), (CHR ''A'', CHR ''H''), (CHR ''J'', CHR ''N''),
             (CHR ''P'', CHR ''Z''), (CHR ''a'', CHR ''k''), (CHR ''m'', CHR ''z'')]"

text \<open>\<open>\s+\<close>, \<open>\d+\<close>, \<open>\d+(?:\.\d+)?\<close>, \<open>[a-zA-Z0-9]+\<close>, \<open>[a-zA-Z]+\<close> and
  \<open>[1-9A-HJ-NP-Za-km-z]{32,44}\<close>.\<close>

definition spaces :: re where
  "spaces = Chars spaceClass 1 None"

definition digits :: re where
  "digits = Chars digitClass 1 None"

definition number :: re where
  "number = Seq digits (Opt (Seq (Lit ''.'') digits))"

definition alnums :: re where
  "alnums = Chars alnumClass 1 None"

definition letters :: re where
  "letters = Chars letterClass 1 None"

definition base58Address :: re where
  "base58Address = Chars base58 32 (Some 44)"

section \<open>Numbers\<close>

text \<open>
  JavaScript numbers are modelled as exact rationals. \<open>parseFloat\<close> is given for the
  texts the grammars capture, a run of digits with an optional fraction; its value is
  their decimal value.
\<close>

definition isDigit :: "char \<Rightarrow> bool" where
  "isDigit c = (let n = (of_char c :: nat) in 48 \<le> n \<and> n \<le> 57)"

definition decimalValue :: "string \<Rightarrow> nat" where
  "decimalValue s = foldl (\<lambda>acc c. 10 * acc + ((of_char c :: nat) - 48)) 0 s"

definition parseFloat :: "string \<Rightarrow> rat" where
  "parseFloat s =
     (let ip = takeWhile isDigit s;
          rest = dropWhile isDigit s;
          fp = (case rest of [] \<Rightarrow> [] | c # t \<Rightarrow> if c = CHR ''.'' then takeWhile isDigit t else [])
      in of_nat (decimalValue ip) + of_nat (decimalValue fp) / 10 ^ length fp)"

definition LAMPORTS_PER_SOL :: rat where
  "LAMPORTS_PER_SOL = 1000000000"

section \<open>Classifying a confirmation reply\<close>

datatype response = Confirm | Cancel | Invalid

text \<open>\<open>parseConfirmationResponse\<close> of the confirmSwap tool.\<close>

definition parseConfirmationResponse :: "string \<Rightarrow> response" where
  "parseConfirmationResponse input =
     (let normalizedInput = trim (toLowerCase input) in
      if normalizedInput = ''confirm swap'' \<or> normalizedInput = ''yes swap''
         \<or> strIncludes normalizedInput ''confirm'' \<and> strIncludes normalizedInput ''swap''
      then Confirm
      else if normalizedInput = ''cancel swap'' \<or> normalizedInput = ''no swap''
         \<or> strIncludes normalizedInput ''cancel'' \<and> strIncludes normalizedInput ''swap''
      then Cancel
      else Invalid)"

text \<open>\<open>parseConfirmationResponse\<close> of the confirmCrossChainSwap tool.\<close>

definition parseConfirmationResponseCC :: "string \<Rightarrow> response" where
  "parseConfirmationResponseCC input =
     (let normalizedInput = trim (toLowerCase input) in
      if normalizedInput = ''confirm cross-chain swap''
         \<or> normalizedInput = ''confirm crosschain swap''
         \<or> normalizedInput = ''confirm cross chain swap''
         \<or> normalizedInput = ''yes cross-chain swap''
         \<or> normalizedInput = ''yes crosschain swap''
         \<or> normalizedInput = ''confirm swap''
         \<or> (strIncludes normalizedInput ''confirm'' \<and> strIncludes normalizedInput ''cross''
              \<and> strIncludes normalizedInput ''chain'')
         \<or> (strIncludes normalizedInput ''confirm'' \<and> strIncludes normalizedInput ''crosschain'')
         \<or> (strIncludes normalizedInput ''yes'' \<and> strIncludes normalizedInput ''cross''
              \<and> strIncludes normalizedInput ''chain'')
      then Confirm
      else if normalizedInput = ''cancel cross-chain swap''
         \<or> normalizedInput = ''cancel crosschain swap''
         \<or> normalizedInput = ''cancel cross chain swap''
         \<or> normalizedInput = ''no cross-chain swap''
         \<or> normalizedInput = ''no crosschain swap''
         \<or> normalizedInput = ''cancel swap''
         \<or> (strIncludes normalizedInput ''cancel'' \<and> strIncludes normalizedInput ''cross''
              \<and> strIncludes normalizedInput ''chain'')
         \<or> (strIncludes normalizedInput ''cancel'' \<and> strIncludes normalizedInput ''crosschain'')
         \<or> (strIncludes normalizedInput ''no'' \<and> strIncludes normalizedInput ''cross''
              \<and> strIncludes normalizedInput ''chain'')
      then Cancel
      else Invalid)"

section \<open>The outside world and the module state\<close>

text \<open>
  Everything the tools reach outside the repository (the Solana RPC node, the Jupiter and
  Mayan services, the wallet key in the environment, the clock) is a field of the record
  \<open>world\<close>. Each network call is appended to \<open>calls\<close>, the history of external calls,
  and the world answers from that history, so that two calls of the same kind may get
  different answers. A thrown exception is \<open>Inl\<close> of its message.
\<close>

datatype call =
    GetBalance string
  | SendAndConfirmTransaction string string nat
  | SendTransaction string
  | ConfirmTransaction string
  | JupiterTokensGet
  | JupiterPriceGet string
  | JupiterSearchGet string
  | JupiterQuoteGet string string nat nat
  | JupiterSwapPost string
  | MayanFetchQuote rat string string string string
  | MayanSwapFromSolana string string

text \<open>
  The quotes are untyped provider payloads in the source. The records hold the fields the
  tools read; whatever else a provider sends is the extension part of the record.
\<close>

record jupiterQuote =
  jq_outAmount :: rat
  jq_priceImpactPct :: rat

record mayanQuote =
  mq_expectedAmountOut :: rat
  mq_priceImpact :: "rat option"

record token =
  tk_address :: string
  tk_name :: string
  tk_symbol :: string
  tk_decimals :: nat

record tokenData =
  td_liquidity :: rat
  td_buyVolume :: rat
  td_sellVolume :: rat
  td_isSus :: bool
  td_topHoldersPercentage :: rat

type_synonym httpError = "string \<times> string"

record ('q, 'm) world =
  walletPublicKey :: "string option"
  validSolanaAddress :: "string \<Rightarrow> bool"
  dateNow :: "call list \<Rightarrow> int"
  getBalance :: "call list \<Rightarrow> string + nat"
  sendAndConfirmTransaction :: "call list \<Rightarrow> string + string"
  signTransaction :: "string \<Rightarrow> string + string"
  sendTransaction :: "call list \<Rightarrow> string + string"
  rpcConfirmTransaction :: "call list \<Rightarrow> string option"
  jupiterTokensApi :: "call list \<Rightarrow> httpError + token list"
  jupiterPriceApi :: "call list \<Rightarrow> httpError + rat option"
  jupiterSearchApi :: "call list \<Rightarrow> httpError + tokenData list"
  jupiterQuoteApi :: "call list \<Rightarrow> string + 'q jupiterQuote_scheme option"
  jupiterSwapApi :: "call list \<Rightarrow> 'q jupiterQuote_scheme \<Rightarrow> string + string"
  fetchQuote :: "call list \<Rightarrow> string + 'm mayanQuote_scheme list"
  swapFromSolana :: "call list \<Rightarrow> 'm mayanQuote_scheme \<Rightarrow> string + string"

text \<open>The three pending slots are the module-level variables of the three prepare tools.\<close>

record pendingTx =
  pt_amount :: rat
  pt_recipient :: string
  pt_sender :: string

record 'q pendingSwapDetails =
  ps_inputMint :: string
  ps_outputMint :: string
  ps_inputAmount :: rat
  ps_outputAmount :: rat
  ps_inputToken :: string
  ps_outputToken :: string
  ps_slippage :: rat
  ps_quote :: "'q jupiterQuote_scheme"

datatype slippageSetting = Auto | Bps rat

record 'm pendingCrossChainDetails =
  pc_quote :: "'m mayanQuote_scheme"
  pc_fromToken :: string
  pc_toToken :: string
  pc_fromChain :: string
  pc_toChain :: string
  pc_amount :: string
  pc_destinationAddress :: string
  pc_slippageBps :: slippageSetting
  pc_gasDrop :: "rat option"

record ('q, 'm) state =
  pendingTransaction :: "pendingTx option"
  pendingSwap :: "'q pendingSwapDetails option"
  pendingCrossChainSwap :: "'m pendingCrossChainDetails option"
  cachedTokens :: "token list"
  cacheTimestamp :: int
  jupiterApiFailures :: nat
  lastJupiterFailureTime :: int
  calls :: "call list"

definition request :: "call \<Rightarrow> ('q, 'm) state \<Rightarrow> ('q, 'm) state" where
  "request c st = st\<lparr>calls := calls st @ [c]\<rparr>"

text \<open>
  A tool returns \<open>success\<close> and \<open>message\<close> and, by tool, further fields. The message is
  kept as the template chosen and the values put into it, not as the rendered text.
\<close>

record 'msg result =
  success :: bool
  message :: 'msg

text \<open>
  The prepare tools for swaps add the details of the prepared action and
  \<open>confirmationRequired\<close>; the confirm tools add the transaction hash and the details
  of what was executed (\<open>transactionDetails\<close>, \<open>swapDetails\<close> in the source).
\<close>

record ('msg, 'd) prepareResult = "'msg result" +
  prepared :: "'d option"
  confirmationRequired :: bool

record ('msg, 'd) confirmResult = "'msg result" +
  transactionHash :: "string option"
  executed :: "'d option"

definition rejected :: "'msg \<Rightarrow> ('msg, 'd) prepareResult" where
  "rejected m = \<lparr>success = False, message = m, prepared = None, confirmationRequired = False\<rparr>"

definition failed :: "'msg \<Rightarrow> ('msg, 'd) confirmResult" where
  "failed m = \<lparr>success = False, message = m, transactionHash = None, executed = None\<rparr>"

section \<open>Native transfer: sendSolTransaction and confirmTransaction\<close>

datatype txMessage =
    InvalidCommandFormat
  | InvalidSolanaAddress
  | WalletNotConfigured
  | ExceedsSafetyLimit
  | InsufficientBalance rat rat
  | ErrorCheckingBalance string
  | TransactionConfirmationRequired
  | InvalidConfirmation string
  | NoPendingTransaction
  | TransactionCancelled
  | InvalidAddressInConfirmation
  | TransactionSuccessful
  | TransactionFailed string

record parsedTx =
  tx_amount :: rat
  tx_recipient :: string

record preparedTxDetails =
  pd_amount :: rat
  pd_recipient :: string
  pd_sender :: string
  pd_currentBalance :: rat
  pd_estimatedFee :: rat
  pd_totalCost :: rat
  pd_remainingBalance :: rat

record sendSolResult = "txMessage result" +
  preparedDetails :: "preparedTxDetails option"
  confirmationCommand :: "(rat \<times> string) option"

definition sendSolFailure :: "txMessage \<Rightarrow> sendSolResult" where
  "sendSolFailure m =
     \<lparr>success = False, message = m, preparedDetails = None, confirmationCommand = None\<rparr>"


text \<open>One pattern of \<open>parseTransactionCommand\<close>: a match with a positive amount.\<close>

definition matchTransfer :: "re \<Rightarrow> string \<Rightarrow> parsedTx option" where
  "matchTransfer pattern input =
     (case regexMatch pattern input of
        None \<Rightarrow> None
      | Some m \<Rightarrow>
          let amount = parseFloat (group m 1); recipient = group m 2 in
          if amount > 0 \<and> recipient \<noteq> []
          then Some \<lparr>tx_amount = amount, tx_recipient = recipient\<rparr> else None)"




text \<open>
  \<open>parseConfirmationCommand\<close>: the exact phrases give the markers for a simple
  confirmation (amount \<open>-1\<close>) and a simple cancellation (amount \<open>-2\<close>); otherwise the
  full command \<open>confirm send <amount> sol to <address>\<close> is looked for in the input.
\<close>

definition confirmSendPattern :: re where
  "confirmSendPattern =
     seqs [Lit ''confirm'', spaces, Lit ''send'', spaces, Grp number, spaces, Lit ''sol'',
           spaces, Lit ''to'', spaces, Grp base58Address]"

definition parseConfirmationCommand :: "string \<Rightarrow> parsedTx option" where
  "parseConfirmationCommand input =
     (let normalizedInput = trim (toLowerCase input) in
      if normalizedInput = ''confirm transaction'' \<or> normalizedInput = ''yes transaction''
         \<or> normalizedInput = ''confirm send'' \<or> normalizedInput = ''yes''
         \<or> normalizedInput = ''y'' \<or> normalizedInput = ''confirm''
      then Some \<lparr>tx_amount = - 1, tx_recipient = ''SIMPLE_CONFIRMATION''\<rparr>
      else if normalizedInput = ''cancel transaction'' \<or> normalizedInput = ''no transaction''
         \<or> normalizedInput = ''cancel send'' \<or> normalizedInput = ''no''
         \<or> normalizedInput = ''n''
      then Some \<lparr>tx_amount = - 2, tx_recipient = ''SIMPLE_CANCELLATION''\<rparr>
      else matchTransfer confirmSendPattern input)"

record executedTxDetails =
  xd_amount :: rat
  xd_recipient :: string
  xd_sender :: string
  xd_actualFee :: rat
  xd_newBalance :: rat

type_synonym confirmTxResult = "(txMessage, executedTxDetails) confirmResult"

text \<open>The handler of the \<open>catch\<close> block of confirmTransaction.\<close>

definition transactionErrorMessage :: "string \<Rightarrow> txMessage" where
  "transactionErrorMessage e =
     TransactionFailed
       (if strIncludes e ''insufficient funds'' then ''Insufficient funds for transaction and fees.''
        else if strIncludes e ''blockhash not found''
        then ''Network congestion. Please try again in a moment.''
        else if strIncludes e ''invalid'' then ''Invalid transaction parameters.''
        else if e \<noteq> [] then e else ''Unknown error occurred.'')"

text \<open>
  The \<open>try\<close> block of confirmTransaction: read the balance, check it against the amount
  and the fee, send the transfer and wait for it, read the balance again.
\<close>

definition transferSol ::
  "('q, 'm) world \<Rightarrow> string \<Rightarrow> rat \<Rightarrow> string \<Rightarrow> ('q, 'm) state
     \<Rightarrow> confirmTxResult \<times> ('q, 'm) state" where
  "transferSol w wallet amount recipient st =
     (let st1 = request (GetBalance wallet) st in
      (case getBalance w (calls st1) of
        Inl e \<Rightarrow> (failed (transactionErrorMessage e), st1)
      | Inr initialBalance \<Rightarrow>
          let initialBalanceInSol = of_nat initialBalance / LAMPORTS_PER_SOL;
              requiredAmount = amount + 5 / 1000000
          in if initialBalanceInSol < requiredAmount
             then (failed (InsufficientBalance initialBalanceInSol requiredAmount), st1)
             else
               let lamportsToSend = nat \<lfloor>amount * LAMPORTS_PER_SOL\<rfloor>;
                   st2 = request (SendAndConfirmTransaction wallet recipient lamportsToSend) st1
               in (case sendAndConfirmTransaction w (calls st2) of
                     Inl e \<Rightarrow> (failed (transactionErrorMessage e), st2)
                   | Inr signature \<Rightarrow>
                       let st3 = request (GetBalance wallet) st2 in
                       (case getBalance w (calls st3) of
                          Inl e \<Rightarrow> (failed (transactionErrorMessage e), st3)
                        | Inr finalBalance \<Rightarrow>
                            (\<lparr>success = True, message = TransactionSuccessful,
                              transactionHash = Some signature,
                              executed = Some
                                \<lparr>xd_amount = amount, xd_recipient = recipient,
                                 xd_sender = wallet,
                                 xd_actualFee =
                                   (of_nat initialBalance - of_nat finalBalance
                                      - of_nat lamportsToSend) / LAMPORTS_PER_SOL,
                                 xd_newBalance = of_nat finalBalance / LAMPORTS_PER_SOL\<rparr>\<rparr>,
                             st3)))))"

text \<open>
  \<open>confirmTransaction\<close>, called with its declared input \<open>confirmationCommand\<close>. A simple
  confirmation takes amount and recipient from the pending transaction and clears it; a
  full command brings its own amount and recipient.
\<close>

definition confirmTransaction ::
  "('q, 'm) world \<Rightarrow> string \<Rightarrow> ('q, 'm) state \<Rightarrow> confirmTxResult \<times> ('q, 'm) state" where
  "confirmTransaction w finalCommand st =
     (case parseConfirmationCommand finalCommand of
        None \<Rightarrow> (failed (InvalidConfirmation finalCommand), st)
      | Some parsed \<Rightarrow>
          (case (if tx_amount parsed = - 1
                    \<and> tx_recipient parsed = ''SIMPLE_CONFIRMATION''
                 then (case pendingTransaction st of
                         None \<Rightarrow> None
                       | Some pending \<Rightarrow>
                           Some (pt_amount pending, pt_recipient pending,
                                 st\<lparr>pendingTransaction := None\<rparr>))
                 else Some (tx_amount parsed, tx_recipient parsed, st)) of
             None \<Rightarrow> (failed NoPendingTransaction, st)
           | Some (amount, recipient, st1) \<Rightarrow>
               if amount = - 2 \<and> recipient = ''SIMPLE_CANCELLATION''
               then (failed TransactionCancelled, st1\<lparr>pendingTransaction := None\<rparr>)
               else if \<not> validSolanaAddress w recipient
               then (failed InvalidAddressInConfirmation, st1)
               else (case walletPublicKey w of
                       None \<Rightarrow> (failed WalletNotConfigured, st1)
                     | Some wallet \<Rightarrow>
                         if amount > 1 then (failed ExceedsSafetyLimit, st1)
                         else transferSol w wallet amount recipient st1)))"

section \<open>Jupiter token list and liquidity (jupiterUtils)\<close>


text \<open>\<open>JUPITER_API_CONFIG.retries\<close>, the same in jupiterUtils and in getWalletPortfolio.\<close>

definition retries :: nat where
  "retries = 2"








definition isTimeout :: "httpError \<Rightarrow> bool" where
  "isTimeout e = (fst e = ''ECONNABORTED'' \<or> strIncludes (snd e) ''timeout'')"




section \<open>Same-chain swap: swapTokens and confirmSwap\<close>

datatype swapMessage =
    InvalidSwapCommand
  | SwapExceedsSafetyLimit
  | SwapWalletNotConfigured
  | TokenNotFound string
  | UnableToGetQuote
  | SwapConfirmationRequired
  | ErrorPreparingSwap string
  | InvalidResponse string
  | SwapCancelled
  | NoPendingSwap
  | SwapExecuted
  | SwapFailed string











text \<open>
  \<open>executeJupiterSwap\<close>: ask Jupiter for the swap transaction of the quote, sign it,
  send it, wait for its confirmation. Any failure is rethrown with a prefix.
\<close>

definition executeJupiterSwap ::
  "('q, 'm) world \<Rightarrow> 'q jupiterQuote_scheme \<Rightarrow> string \<Rightarrow> ('q, 'm) state
     \<Rightarrow> (string + string) \<times> ('q, 'm) state" where
  "executeJupiterSwap w q wallet st =
     (let st1 = request (JupiterSwapPost wallet) st in
      case jupiterSwapApi w (calls st1) q of
        Inl e \<Rightarrow> (Inl (''Swap execution failed: '' @ e), st1)
      | Inr swapTransaction \<Rightarrow>
          (case signTransaction w swapTransaction of
             Inl e \<Rightarrow> (Inl (''Swap execution failed: '' @ e), st1)
           | Inr signedTransaction \<Rightarrow>
               let st2 = request (SendTransaction signedTransaction) st1 in
               (case sendTransaction w (calls st2) of
                  Inl e \<Rightarrow> (Inl (''Swap execution failed: '' @ e), st2)
                | Inr signature \<Rightarrow>
                    let st3 = request (ConfirmTransaction signature) st2 in
                    (case rpcConfirmTransaction w (calls st3) of
                       Some e \<Rightarrow> (Inl (''Swap execution failed: '' @ e), st3)
                     | None \<Rightarrow> (Inr signature, st3)))))"





definition getPendingSwap :: "('q, 'm) state \<Rightarrow> 'q pendingSwapDetails option" where
  "getPendingSwap st = pendingSwap st"

definition clearPendingSwap :: "('q, 'm) state \<Rightarrow> ('q, 'm) state" where
  "clearPendingSwap st = st\<lparr>pendingSwap := None\<rparr>"

record executedSwapDetails =
  xs_inputToken :: string
  xs_outputToken :: string
  xs_inputAmount :: rat
  xs_outputAmount :: rat
  xs_actualOutputAmount :: rat
  xs_priceImpact :: rat
  xs_slippage :: rat

type_synonym confirmSwapResult = "(swapMessage, executedSwapDetails) confirmResult"

text \<open>The handler of the \<open>catch\<close> block of confirmSwap.\<close>

definition swapErrorMessage :: "string \<Rightarrow> swapMessage" where
  "swapErrorMessage e =
     SwapFailed
       (if strIncludes e ''insufficient funds''
        then ''Insufficient funds for swap and transaction fees.''
        else if strIncludes e ''slippage''
        then ''Price moved beyond slippage tolerance. Try increasing slippage or try again.''
        else if strIncludes e ''liquidity'' then ''Insufficient liquidity for this swap amount.''
        else if strIncludes e ''timeout''
        then ''Transaction timed out. Network may be congested, please try again.''
        else if strIncludes e ''blockhash''
        then ''Network congestion. Please try again in a moment.''
        else if e \<noteq> [] then e else ''Unknown error occurred during swap execution.'')"

definition confirmSwap ::
  "('q, 'm) world \<Rightarrow> string \<Rightarrow> ('q, 'm) state \<Rightarrow> confirmSwapResult \<times> ('q, 'm) state" where
  "confirmSwap w confirmation st =
     (case parseConfirmationResponse confirmation of
        Invalid \<Rightarrow> (failed (InvalidResponse confirmation), st)
      | Cancel \<Rightarrow> (failed SwapCancelled, clearPendingSwap st)
      | Confirm \<Rightarrow>
          (case getPendingSwap st of
             None \<Rightarrow> (failed NoPendingSwap, st)
           | Some pending \<Rightarrow>
               (case walletPublicKey w of
                  None \<Rightarrow> (failed SwapWalletNotConfigured, clearPendingSwap st)
                | Some wallet \<Rightarrow>
                    (case executeJupiterSwap w (ps_quote pending) wallet st of
                       (Inl e, st1) \<Rightarrow> (failed (swapErrorMessage e), clearPendingSwap st1)
                     | (Inr signature, st1) \<Rightarrow>
                         let st2 = request (ConfirmTransaction signature) st1 in
                         (case rpcConfirmTransaction w (calls st2) of
                            Some e \<Rightarrow> (failed (swapErrorMessage e), clearPendingSwap st2)
                          | None \<Rightarrow>
                              (\<lparr>success = True, message = SwapExecuted,
                                transactionHash = Some signature,
                                executed = Some
                                  \<lparr>xs_inputToken = ps_inputToken pending,
                                   xs_outputToken = ps_outputToken pending,
                                   xs_inputAmount = ps_inputAmount pending,
                                   xs_outputAmount = ps_outputAmount pending,
                                   xs_actualOutputAmount = ps_outputAmount pending,
                                   xs_priceImpact = jq_priceImpactPct (ps_quote pending) * 100,
                                   xs_slippage = ps_slippage pending\<rparr>\<rparr>,
                               clearPendingSwap st2))))))"

section \<open>Cross-chain swap: prepareCrossChainSwap and confirmCrossChainSwap\<close>

datatype ccMessage =
    InvalidCrossChainCommand
  | UnsupportedChain
  | DestinationAddressRequired string
  | CrossChainExceedsSafetyLimit
  | CrossChainWalletNotConfigured
  | UnableToCheckBalance
  | InsufficientSolBalance rat rat
  | InsufficientSolForFees rat rat
  | TokenContractNotFound string string
  | NoRouteAvailable
  | CrossChainConfirmationRequired
  | ErrorPreparingCrossChainSwap string
  | InvalidCrossChainResponse string
  | CrossChainSwapCancelled
  | NoPendingCrossChainSwap
  | InsufficientFundsFinalCheck rat rat
  | EvmSourceNotSupported string
  | CrossChainSwapExecuted
  | CrossChainSwapFailed string








text \<open>\<open>/^[1-9A-HJ-NP-Za-km-z]{32,44}$/\<close>, without the flag \<open>i\<close>.\<close>

definition isBase58Address :: "string \<Rightarrow> bool" where
  "isBase58Address s = (32 \<le> length s \<and> length s \<le> 44 \<and> list_all (inClass base58) s)"







definition getPendingCrossChainSwap ::
  "('q, 'm) state \<Rightarrow> 'm pendingCrossChainDetails option" where
  "getPendingCrossChainSwap st = pendingCrossChainSwap st"

definition clearPendingCrossChainSwap :: "('q, 'm) state \<Rightarrow> ('q, 'm) state" where
  "clearPendingCrossChainSwap st = st\<lparr>pendingCrossChainSwap := None\<rparr>"

record executedCrossChainDetails =
  xc_fromToken :: string
  xc_toToken :: string
  xc_fromChain :: string
  xc_toChain :: string
  xc_amount :: string
  xc_destinationAddress :: string

type_synonym confirmCrossChainResult = "(ccMessage, executedCrossChainDetails) confirmResult"

text \<open>The handler of the \<open>catch\<close> block of confirmCrossChainSwap.\<close>

definition crossChainErrorMessage :: "string \<Rightarrow> ccMessage" where
  "crossChainErrorMessage e =
     CrossChainSwapFailed
       (if strIncludes e ''insufficient funds''
        then ''Insufficient funds for swap and transaction fees. Please check your wallet balance and ensure you have enough SOL for fees.''
        else if strIncludes e ''slippage''
        then ''Price moved beyond slippage tolerance. Try increasing slippage or try again.''
        else if strIncludes e ''liquidity''
        then ''Insufficient liquidity for this cross-chain swap.''
        else if strIncludes e ''timeout''
        then ''Transaction timed out. Network may be congested, please try again.''
        else if strIncludes e ''allowance''
        then ''Insufficient token allowance. Please approve the token for spending first.''
        else if strIncludes e ''network''
        then ''Network error. Please check your connection and try again.''
        else if strIncludes e ''Failed to send transaction''
        then ''Transaction failed to broadcast. This is often due to Jupiter routing issues, insufficient liquidity, or slippage tolerance. Try a smaller amount or wait a few minutes and retry.''
        else if e \<noteq> [] then e
        else ''Unknown error occurred during cross-chain swap execution.'')"

definition confirmCrossChainSwap ::
  "('q, 'm) world \<Rightarrow> string \<Rightarrow> ('q, 'm) state
     \<Rightarrow> confirmCrossChainResult \<times> ('q, 'm) state" where
  "confirmCrossChainSwap w confirmation st =
     (case parseConfirmationResponseCC confirmation of
        Invalid \<Rightarrow> (failed (InvalidCrossChainResponse confirmation), st)
      | Cancel \<Rightarrow> (failed CrossChainSwapCancelled, clearPendingCrossChainSwap st)
      | Confirm \<Rightarrow>
          (case getPendingCrossChainSwap st of
             None \<Rightarrow> (failed NoPendingCrossChainSwap, st)
           | Some pending \<Rightarrow>
               if toLowerCase (pc_fromChain pending) = ''solana'' then
                 (case walletPublicKey w of
                    None \<Rightarrow>
                      (failed CrossChainWalletNotConfigured, clearPendingCrossChainSwap st)
                  | Some wallet \<Rightarrow>
                      let st1 = request (GetBalance wallet) st in
                      (case getBalance w (calls st1) of
                         Inl e \<Rightarrow>
                           (failed (crossChainErrorMessage e), clearPendingCrossChainSwap st1)
                       | Inr balance \<Rightarrow>
                           let balanceInSol = of_nat balance / LAMPORTS_PER_SOL;
                               swapAmount = parseFloat (pc_amount pending);
                               estimatedFees = 6 / 100;
                               totalRequired = swapAmount + estimatedFees
                           in if balanceInSol < totalRequired
                              then (failed (InsufficientFundsFinalCheck balanceInSol totalRequired),
                                    clearPendingCrossChainSwap st1)
                              else
                                let st2 = request (MayanSwapFromSolana wallet
                                                     (pc_destinationAddress pending)) st1
                                in (case swapFromSolana w (calls st2) (pc_quote pending) of
                                      Inl e \<Rightarrow>
                                        (failed (crossChainErrorMessage e),
                                         clearPendingCrossChainSwap st2)
                                    | Inr hash \<Rightarrow>
                                        (\<lparr>success = True, message = CrossChainSwapExecuted,
                                          transactionHash = Some hash,
                                          executed = Some
                                            \<lparr>xc_fromToken = pc_fromToken pending,
                                             xc_toToken = pc_toToken pending,
                                             xc_fromChain = pc_fromChain pending,
                                             xc_toChain = pc_toChain pending,
                                             xc_amount = pc_amount pending,
                                             xc_destinationAddress =
                                               pc_destinationAddress pending\<rparr>\<rparr>,
                                         clearPendingCrossChainSwap st2))))
               else (failed (EvmSourceNotSupported (pc_fromChain pending)),
                     clearPendingCrossChainSwap st)))"

section \<open>Price validation and its circuit breaker (getWalletPortfolio)\<close>

definition SOL_MINT :: string where
  "SOL_MINT = ''So11111111111111111111111111111111111111112''"

definition MAX_FAILURES :: nat where
  "MAX_FAILURES = 5"

definition CIRCUIT_BREAKER_TIMEOUT :: int where
  "CIRCUIT_BREAKER_TIMEOUT = 60000"

definition isJupiterApiDown :: "('q, 'm) world \<Rightarrow> ('q, 'm) state \<Rightarrow> bool \<times> ('q, 'm) state" where
  "isJupiterApiDown w st =
     (let now = dateNow w (calls st) in
      if jupiterApiFailures st \<ge> MAX_FAILURES then
        (if now - lastJupiterFailureTime st < CIRCUIT_BREAKER_TIMEOUT then (True, st)
         else (False, st\<lparr>jupiterApiFailures := 0, lastJupiterFailureTime := 0\<rparr>))
      else (False, st))"

definition recordJupiterFailure :: "('q, 'm) world \<Rightarrow> ('q, 'm) state \<Rightarrow> ('q, 'm) state" where
  "recordJupiterFailure w st =
     st\<lparr>jupiterApiFailures := jupiterApiFailures st + 1,
        lastJupiterFailureTime := dateNow w (calls st)\<rparr>"

record priceValidation =
  pv_isValid :: bool
  pv_validatedPrice :: rat

definition allowPrice :: "rat \<Rightarrow> priceValidation" where
  "allowPrice price = \<lparr>pv_isValid = True, pv_validatedPrice = price\<rparr>"

definition rejectPrice :: priceValidation where
  "rejectPrice = \<lparr>pv_isValid = False, pv_validatedPrice = 0\<rparr>"

text \<open>The checks of \<open>validateTokenPrice\<close> on the first search result.\<close>

definition checkTokenData :: "tokenData \<Rightarrow> rat \<Rightarrow> priceValidation" where
  "checkTokenData td jupiterPrice =
     (let volume24h = td_buyVolume td + td_sellVolume td in
      if td_liquidity td < 1000 then rejectPrice
      else if volume24h < 100 then rejectPrice
      else if td_isSus td then rejectPrice
      else if td_topHoldersPercentage td > 90 then rejectPrice
      else allowPrice jupiterPrice)"

function validateTokenPriceFrom ::
  "('q, 'm) world \<Rightarrow> string \<Rightarrow> rat \<Rightarrow> nat \<Rightarrow> ('q, 'm) state
     \<Rightarrow> priceValidation \<times> ('q, 'm) state" where
  "validateTokenPriceFrom w mint jupiterPrice attempt st =
     (if attempt \<le> retries then
        let st1 = request (JupiterSearchGet mint) st in
        (case jupiterSearchApi w (calls st1) of
           Inr (td # _) \<Rightarrow> (checkTokenData td jupiterPrice, st1)
         | Inr [] \<Rightarrow> (rejectPrice, st1)
         | Inl e \<Rightarrow>
             let st2 = (if attempt = retries then recordJupiterFailure w st1 else st1) in
             if isTimeout e then
               (if attempt < retries
                then validateTokenPriceFrom w mint jupiterPrice (attempt + 1) st2
                else (allowPrice jupiterPrice, st2))
             else if attempt \<ge> retries then (allowPrice jupiterPrice, st2)
             else validateTokenPriceFrom w mint jupiterPrice (attempt + 1) st2)
      else (allowPrice jupiterPrice, st))"
  by pat_completeness auto
termination
  by (relation "measure (\<lambda>(w, mint, jupiterPrice, attempt, st). Suc retries - attempt)") auto

declare validateTokenPriceFrom.simps [simp del]

definition validateTokenPrice ::
  "('q, 'm) world \<Rightarrow> string \<Rightarrow> rat \<Rightarrow> ('q, 'm) state \<Rightarrow> priceValidation \<times> ('q, 'm) state" where
  "validateTokenPrice w mint jupiterPrice st =
     (if mint = SOL_MINT then (allowPrice jupiterPrice, st)
      else case isJupiterApiDown w st of
        (True, st1) \<Rightarrow> (allowPrice jupiterPrice, st1)
      | (False, st1) \<Rightarrow> validateTokenPriceFrom w mint jupiterPrice 0 st1)"

section \<open>Notions used in the statements\<close>

text \<open>Two states hold the same pending actions, slot by slot.\<close>

definition samePending :: "('q, 'm) state \<Rightarrow> ('q, 'm) state \<Rightarrow> bool" where
  "samePending st st' =
     (pendingTransaction st' = pendingTransaction st \<and> pendingSwap st' = pendingSwap st
      \<and> pendingCrossChainSwap st' = pendingCrossChainSwap st)"

text \<open>The calls that ask a provider for a quote.\<close>

fun isQuoteRequest :: "call \<Rightarrow> bool" where
  "isQuoteRequest (JupiterQuoteGet inMint outMint amountUnits slippage) = True"
| "isQuoteRequest (MayanFetchQuote amountIn64 fromContract toContract fromChain toChain) = True"
| "isQuoteRequest c = False"

text \<open>The calls that reach the network at all: every call of the history does.\<close>

definition newCalls :: "('q, 'm) state \<Rightarrow> ('q, 'm) state \<Rightarrow> call list" where
  "newCalls st st' = drop (length (calls st)) (calls st')"

section \<open>Example worlds\<close>

text \<open>
  Concrete worlds and states for evaluating the tools. The example quotes carry an expiry
  time next to the fields the tools read: \<open>validUntil\<close> for Jupiter, \<open>deadline\<close> for
  Mayan, in milliseconds like the clock.
\<close>

record timedJupiterQuote = jupiterQuote +
  validUntil :: int

record timedMayanQuote = mayanQuote +
  deadline :: int

type_synonym exampleWorld = "(unit timedJupiterQuote_ext, unit timedMayanQuote_ext) world"

type_synonym exampleState = "(unit timedJupiterQuote_ext, unit timedMayanQuote_ext) state"

definition exampleAddress :: string where
  "exampleAddress = ''2Dk2je4iif7yttyGMLbjc8JrqUSMw2wqLPuHxVsJZ2Bg''"

definition exampleJupiterQuote :: timedJupiterQuote where
  "exampleJupiterQuote = \<lparr>jq_outAmount = 1500000, jq_priceImpactPct = 0, validUntil = 100\<rparr>"

definition exampleMayanQuote :: timedMayanQuote where
  "exampleMayanQuote = \<lparr>mq_expectedAmountOut = 3 / 2, mq_priceImpact = None, deadline = 100\<rparr>"

text \<open>
  A world in which everything works: the wallet is configured and holds 2 SOL, every
  address of the base58 shape is valid, every service answers. The clock shows 200000.
\<close>

definition goodWorld :: exampleWorld where
  "goodWorld =
     \<lparr>walletPublicKey = Some ''9xQeWvG816bUx9EPjHmaT23yvVM2ZWbrrpZb9PusVFin'',
      validSolanaAddress = isBase58Address,
      dateNow = (\<lambda>h. 200000),
      getBalance = (\<lambda>h. Inr 2000000000),
      sendAndConfirmTransaction = (\<lambda>h. Inr ''signature1''),
      signTransaction = (\<lambda>t. Inr t),
      sendTransaction = (\<lambda>h. Inr ''signature2''),
      rpcConfirmTransaction = (\<lambda>h. None),
      jupiterTokensApi = (\<lambda>h. Inr []),
      jupiterPriceApi = (\<lambda>h. Inr None),
      jupiterSearchApi = (\<lambda>h. Inr []),
      jupiterQuoteApi = (\<lambda>h. Inr (Some exampleJupiterQuote)),
      jupiterSwapApi = (\<lambda>h q. Inr ''swapTransaction''),
      fetchQuote = (\<lambda>h. Inr [exampleMayanQuote]),
      swapFromSolana = (\<lambda>h q. Inr ''hash1'')\<rparr>"

text \<open>The same world with every Jupiter and Mayan service failing.\<close>

definition servicesDown :: exampleWorld where
  "servicesDown =
     goodWorld
       \<lparr>jupiterTokensApi := (\<lambda>h. Inl (''ECONNREFUSED'', ''connect failed'')),
        jupiterPriceApi := (\<lambda>h. Inl (''ECONNREFUSED'', ''connect failed'')),
        jupiterSearchApi := (\<lambda>h. Inl (''ECONNREFUSED'', ''connect failed'')),
        jupiterQuoteApi := (\<lambda>h. Inl ''connect failed''),
        jupiterSwapApi := (\<lambda>h q. Inl ''connect failed''),
        fetchQuote := (\<lambda>h. Inl ''connect failed''),
        swapFromSolana := (\<lambda>h q. Inl ''connect failed'')\<rparr>"

definition idle :: exampleState where
  "idle =
     \<lparr>pendingTransaction = None, pendingSwap = None, pendingCrossChainSwap = None,
      cachedTokens = [], cacheTimestamp = 0, jupiterApiFailures = 0,
      lastJupiterFailureTime = 0, calls = []\<rparr>"

definition examplePendingTx :: pendingTx where
  "examplePendingTx =
     \<lparr>pt_amount = 1 / 2, pt_recipient = exampleAddress,
      pt_sender = ''9xQeWvG816bUx9EPjHmaT23yvVM2ZWbrrpZb9PusVFin''\<rparr>"

definition examplePendingSwap :: "unit timedJupiterQuote_ext pendingSwapDetails" where
  "examplePendingSwap =
     \<lparr>ps_inputMint = ''So11111111111111111111111111111111111111112'',
      ps_outputMint = ''EPjFWdd5AufqSSqeM2qN1xzybapC8G4wEGGkZwyTDt1v'',
      ps_inputAmount = 1 / 100, ps_outputAmount = 3 / 2, ps_inputToken = ''SOL'',
      ps_outputToken = ''USDC'', ps_slippage = 5, ps_quote = exampleJupiterQuote\<rparr>"

definition examplePendingCrossChain :: "unit timedMayanQuote_ext pendingCrossChainDetails" where
  "examplePendingCrossChain =
     \<lparr>pc_quote = exampleMayanQuote, pc_fromToken = ''SOL'', pc_toToken = ''USDC'',
      pc_fromChain = ''solana'', pc_toChain = ''ethereum'', pc_amount = ''0.5'',
      pc_destinationAddress = ''0x1111111111111111111111111111111111111111'',
      pc_slippageBps = Auto, pc_gasDrop = None\<rparr>"

text \<open>A state in which each of the three tools has a pending action.\<close>

definition allPending :: exampleState where
  "allPending =
     idle\<lparr>pendingTransaction := Some examplePendingTx,
          pendingSwap := Some examplePendingSwap,
          pendingCrossChainSwap := Some examplePendingCrossChain\<rparr>"




section \<open>Evaluating the string functions\<close>

text \<open>
  Rules for computing the parsers on a concrete text with the simplifier: the classes as
  ranges of character codes, and \<open>regexMatch\<close> trying the next position only when the
  current one has no match.
\<close>

lemma of_char_toLowerChar:
  "(of_char (toLowerChar c) :: nat) = (if isUpper c then of_char c + 32 else of_char c)"
  by (cases c) (auto simp: toLowerChar_def isUpper_def)

lemma of_char_toUpperChar:
  "(of_char (toUpperChar c) :: nat) = (if isLower c then of_char c - 32 else of_char c)"
  by (cases c) (auto simp: toUpperChar_def isLower_def)

lemma inClass_codes:
  "inClass cls c = list_ex (\<lambda>r. (of_char (fst r) :: nat) \<le> of_char c \<and> (of_char c :: nat) \<le> of_char (snd r)) cls"
  by (simp add: inClass_def)

lemma spaceClass_eval:
  "inClassI spaceClass c = (let n = (of_char c :: nat) in (9 \<le> n \<and> n \<le> 13) \<or> n = 32)"
  by (auto simp: inClassI_def inClass_def spaceClass_def of_char_toLowerChar of_char_toUpperChar
      isUpper_def isLower_def Let_def)

lemma digitClass_eval:
  "inClassI digitClass c = (let n = (of_char c :: nat) in 48 \<le> n \<and> n \<le> 57)"
  by (auto simp: inClassI_def inClass_def digitClass_def of_char_toLowerChar of_char_toUpperChar
      isUpper_def isLower_def Let_def)

lemma alnumClass_eval:
  "inClassI alnumClass c =
     (let n = (of_char c :: nat) in
      (48 \<le> n \<and> n \<le> 57) \<or> (65 \<le> n \<and> n \<le> 90) \<or> (97 \<le> n \<and> n \<le> 122))"
  by (auto simp: inClassI_def inClass_def alnumClass_def of_char_toLowerChar of_char_toUpperChar
      isUpper_def isLower_def Let_def)

lemma letterClass_eval:
  "inClassI letterClass c =
     (let n = (of_char c :: nat) in (65 \<le> n \<and> n \<le> 90) \<or> (97 \<le> n \<and> n \<le> 122))"
  by (auto simp: inClassI_def inClass_def letterClass_def of_char_toLowerChar of_char_toUpperChar
      isUpper_def isLower_def Let_def)

lemma base58_eval:
  "inClassI base58 c =
     (let n = (of_char c :: nat) in
      (49 \<le> n \<and> n \<le> 57) \<or> (65 \<le> n \<and> n \<le> 90) \<or> (97 \<le> n \<and> n \<le> 122))"
  by (auto simp: inClassI_def inClass_def base58_def of_char_toLowerChar of_char_toUpperChar
      isUpper_def isLower_def Let_def)

lemma base58_exact_eval:
  "inClass base58 c =
     (let n = (of_char c :: nat) in
      (49 \<le> n \<and> n \<le> 57) \<or> (65 \<le> n \<and> n \<le> 72) \<or> (74 \<le> n \<and> n \<le> 78)
      \<or> (80 \<le> n \<and> n \<le> 90) \<or> (97 \<le> n \<and> n \<le> 107) \<or> (109 \<le> n \<and> n \<le> 122))"
  by (auto simp: inClass_def base58_def Let_def)

lemma regexMatch_eval:
  "regexMatch r [] =
     (let ms = rmatch r ([], []) in if ms = [] then None else Some (fst (hd ms)))"
  "regexMatch r (c # s) =
     (let ms = rmatch r ([], c # s) in if ms = [] then regexMatch r s else Some (fst (hd ms)))"
  by (simp_all add: regexMatch.simps Let_def split: list.splits)

lemmas string_eval =
  isSpace_def isUpper_def isLower_def toLowerChar_def toUpperChar_def toLowerCase_def
  toUpperCase_def trim_def strIncludes_def startsWith_def
  spaceClass_eval digitClass_eval alnumClass_eval letterClass_eval base58_eval
  base58_exact_eval regexMatch_eval spaces_def digits_def number_def alnums_def letters_def
  base58Address_def isDigit_def decimalValue_def parseFloat_def Let_def

section \<open>What the helper functions leave alone\<close>

lemma samePending_refl [simp]: "samePending st st"
  by (simp add: samePending_def)


lemma samePending_request [simp]: "samePending st (request c st') = samePending st st'"
  by (simp add: samePending_def request_def)

lemma samePending_request_left [simp]: "samePending (request c st) st' = samePending st st'"
  by (simp add: samePending_def request_def)










lemma executeJupiterSwap_samePending: "samePending st (snd (executeJupiterSwap w q wallet st))"
  by (simp add: executeJupiterSwap_def Let_def split: sum.splits option.splits)


lemma transferSol_samePending: "samePending st (snd (transferSol w wallet amount recipient st))"
  by (simp add: transferSol_def Let_def split: sum.splits option.splits)


section \<open>The pending slots after a prepare call\<close>

lemma rejected_fields [simp]:
  "success (rejected m) = False" "message (rejected m) = m" "prepared (rejected m) = None"
  "confirmationRequired (rejected m) = False"
  by (simp_all add: rejected_def)



lemma failed_fields [simp]:
  "success (failed m) = False" "message (failed m) = m" "transactionHash (failed m) = None"
  "executed (failed m) = None"
  by (simp_all add: failed_def)

lemma sendSolFailure_fields [simp]:
  "success (sendSolFailure m) = False" "message (sendSolFailure m) = m"
  by (simp_all add: sendSolFailure_def)






section \<open>Properties of the string functions\<close>

lemma sublist_dropWhile:
  assumes "sublist n s" and "n \<noteq> []" and "\<not> P (hd n)"
  shows "sublist n (dropWhile P s)"
proof -
  from assms(1) obtain ps ss where s: "s = ps @ n @ ss"
    by (auto simp: sublist_def)
  show ?thesis
  proof (cases "\<forall>x\<in>set ps. P x")
    case True
    from assms(2,3) have "dropWhile P (n @ ss) = n @ ss"
      by (cases n) auto
    with True s have "dropWhile P s = n @ ss"
      by simp
    then show ?thesis by simp
  next
    case False
    then obtain x where "x \<in> set ps" "\<not> P x" by blast
    then have "dropWhile P s = dropWhile P ps @ n @ ss"
      unfolding s by (rule dropWhile_append1)
    then show ?thesis by simp
  qed
qed

lemma strIncludes_trim:
  assumes "strIncludes s n" and "n \<noteq> []" and "\<not> isSpace (hd n)" and "\<not> isSpace (last n)"
  shows "strIncludes (trim s) n"
proof -
  from assms(1-3) have "sublist n (dropWhile isSpace s)"
    unfolding strIncludes_def by (rule sublist_dropWhile)
  then have "sublist (rev n) (rev (dropWhile isSpace s))"
    by simp
  moreover from assms(2,4) have "rev n \<noteq> []" "\<not> isSpace (hd (rev n))"
    by (simp_all add: hd_rev)
  ultimately have "sublist (rev n) (dropWhile isSpace (rev (dropWhile isSpace s)))"
    by (rule sublist_dropWhile)
  then show ?thesis
    unfolding strIncludes_def trim_def by (simp add: sublist_rev_right)
qed

lemma strIncludes_trim_confirm: "strIncludes s ''confirm'' \<Longrightarrow> strIncludes (trim s) ''confirm''"
  by (rule strIncludes_trim) (simp_all add: isSpace_def)

lemma strIncludes_trim_swap: "strIncludes s ''swap'' \<Longrightarrow> strIncludes (trim s) ''swap''"
  by (rule strIncludes_trim) (simp_all add: isSpace_def)

section \<open>The swap classifier prefers confirmation\<close>

text \<open>
  C9. In the classifier of the confirmSwap tool, every input whose lower-cased text contains
  both \<open>confirm\<close> and \<open>swap\<close> is classified as a confirmation, whatever else it contains
  (\<open>cancel\<close> or \<open>no\<close> included); and an input classified as a cancellation does not meet
  the confirm condition: it is neither of the two exact confirm phrases, nor does it
  contain both \<open>confirm\<close> and \<open>swap\<close>.
\<close>

theorem swap_classifier_confirm_first:
  "(strIncludes (toLowerCase input) ''confirm'' \<and> strIncludes (toLowerCase input) ''swap''
      \<longrightarrow> parseConfirmationResponse input = Confirm)
   \<and> (parseConfirmationResponse input = Cancel
      \<longrightarrow> \<not> (trim (toLowerCase input) = ''confirm swap''
             \<or> trim (toLowerCase input) = ''yes swap''
             \<or> strIncludes (toLowerCase input) ''confirm'' \<and> strIncludes (toLowerCase input) ''swap''))"
proof -
  have a: "parseConfirmationResponse input = Confirm"
    if "strIncludes (toLowerCase input) ''confirm''" "strIncludes (toLowerCase input) ''swap''"
    using that strIncludes_trim_confirm strIncludes_trim_swap
    by (simp add: parseConfirmationResponse_def Let_def)
  have b: False
    if "parseConfirmationResponse input = Cancel"
      and "trim (toLowerCase input) = ''confirm swap'' \<or> trim (toLowerCase input) = ''yes swap''"
    using that by (auto simp: parseConfirmationResponse_def Let_def split: if_splits)
  from a b show ?thesis by (metis response.distinct(1))
qed

lemma classify_confirm_example:
  "strIncludes (toLowerCase ''Confirm swap? NO, cancel it'') ''confirm''
   \<and> strIncludes (toLowerCase ''Confirm swap? NO, cancel it'') ''swap''"
  by code_simp

lemma classify_cancel_example: "parseConfirmationResponse ''  cancel the SWAP '' = Cancel"
  by code_simp

theorem swap_classifier_confirm_first_witness:
  "parseConfirmationResponse ''Confirm swap? NO, cancel it'' = Confirm
   \<and> \<not> (strIncludes (toLowerCase ''  cancel the SWAP '') ''confirm''
          \<and> strIncludes (toLowerCase ''  cancel the SWAP '') ''swap'')"
  using swap_classifier_confirm_first [of "''Confirm swap? NO, cancel it''"]
    swap_classifier_confirm_first [of "''  cancel the SWAP ''"]
    classify_confirm_example classify_cancel_example
  by blast

section \<open>What the success flag of the confirm tools tells\<close>




lemma parse_cancel_swap:
  "parseConfirmationResponse ''cancel swap'' = Cancel"
  "parseConfirmationResponseCC ''cancel swap'' = Cancel"
  by code_simp+

lemma parse_confirm_swap:
  "parseConfirmationResponse ''confirm swap'' = Confirm"
  "parseConfirmationResponseCC ''confirm swap'' = Confirm"
  by code_simp+

lemma example_amounts:
  "parseFloat (pc_amount examplePendingCrossChain) = 1 / 2"
  "toLowerCase (pc_fromChain examplePendingCrossChain) = ''solana''"
  by code_simp+

lemma good_swap: "success (fst (confirmSwap goodWorld ''confirm swap'' allPending))"
  by (simp add: confirmSwap_def parse_confirm_swap getPendingSwap_def executeJupiterSwap_def
      request_def clearPendingSwap_def goodWorld_def allPending_def idle_def)

lemma good_cc: "success (fst (confirmCrossChainSwap goodWorld ''confirm swap'' allPending))"
  using example_amounts
  by (simp add: confirmCrossChainSwap_def parse_confirm_swap getPendingCrossChainSwap_def
      request_def clearPendingCrossChainSwap_def goodWorld_def allPending_def idle_def
      LAMPORTS_PER_SOL_def)



section \<open>Example commands\<close>



lemma parseFloat_examples:
  "parseFloat ''11'' = 11" "parseFloat ''101'' = 101" "parseFloat ''0.5'' = 1 / 2"
  "parseFloat ''0.01'' = 1 / 100" "parseFloat ''1'' = 1"
  by (simp_all add: string_eval)







lemma valid_example_address: "isBase58Address ''2Dk2je4iif7yttyGMLbjc8JrqUSMw2wqLPuHxVsJZ2Bg''"
  by (simp add: isBase58Address_def base58_exact_eval)













lemma normalize_confirm_send:
  "trim (toLowerCase ''confirm send 0.5 SOL to 2Dk2je4iif7yttyGMLbjc8JrqUSMw2wqLPuHxVsJZ2Bg'')
     = ''confirm send 0.5 sol to 2dk2je4iif7yttygmlbjc8jrqusmw2wqlpuhxvsjz2bg''"
  by (simp add: string_eval)

lemma match_confirm_send:
  "regexMatch confirmSendPattern
       ''confirm send 0.5 SOL to 2Dk2je4iif7yttyGMLbjc8JrqUSMw2wqLPuHxVsJZ2Bg''
     = Some [''0.5'', ''2Dk2je4iif7yttyGMLbjc8JrqUSMw2wqLPuHxVsJZ2Bg'']"
  by (simp add: string_eval confirmSendPattern_def)

lemma parse_confirm_send:
  "parseConfirmationCommand
       ''confirm send 0.5 SOL to 2Dk2je4iif7yttyGMLbjc8JrqUSMw2wqLPuHxVsJZ2Bg''
     = Some \<lparr>tx_amount = 1 / 2,
             tx_recipient = ''2Dk2je4iif7yttyGMLbjc8JrqUSMw2wqLPuHxVsJZ2Bg''\<rparr>"
proof -
  have "matchTransfer confirmSendPattern
        ''confirm send 0.5 SOL to 2Dk2je4iif7yttyGMLbjc8JrqUSMw2wqLPuHxVsJZ2Bg''
      = Some \<lparr>tx_amount = 1 / 2,
              tx_recipient = ''2Dk2je4iif7yttyGMLbjc8JrqUSMw2wqLPuHxVsJZ2Bg''\<rparr>"
    by (simp add: matchTransfer_def match_confirm_send group_def parseFloat_examples)
  then show ?thesis
    by (simp add: parseConfirmationCommand_def normalize_confirm_send)
qed

lemma parse_simple_replies:
  "parseConfirmationCommand ''yes''
     = Some \<lparr>tx_amount = - 1, tx_recipient = ''SIMPLE_CONFIRMATION''\<rparr>"
  "parseConfirmationCommand ''confirm''
     = Some \<lparr>tx_amount = - 1, tx_recipient = ''SIMPLE_CONFIRMATION''\<rparr>"
  "parseConfirmationCommand ''confirm transaction''
     = Some \<lparr>tx_amount = - 1, tx_recipient = ''SIMPLE_CONFIRMATION''\<rparr>"
  "parseConfirmationCommand ''no''
     = Some \<lparr>tx_amount = - 2, tx_recipient = ''SIMPLE_CANCELLATION''\<rparr>"
  "parseConfirmationCommand ''cancel transaction''
     = Some \<lparr>tx_amount = - 2, tx_recipient = ''SIMPLE_CANCELLATION''\<rparr>"
  by (simp_all add: parseConfirmationCommand_def isSpace_def isUpper_def toLowerChar_def
      toLowerCase_def trim_def)

lemma full_command_executes:
  "confirmTransaction goodWorld
       ''confirm send 0.5 SOL to 2Dk2je4iif7yttyGMLbjc8JrqUSMw2wqLPuHxVsJZ2Bg'' st
     = transferSol goodWorld ''9xQeWvG816bUx9EPjHmaT23yvVM2ZWbrrpZb9PusVFin'' (1 / 2)
         ''2Dk2je4iif7yttyGMLbjc8JrqUSMw2wqLPuHxVsJZ2Bg'' st"
  using valid_example_address
  by (simp add: confirmTransaction_def parse_confirm_send goodWorld_def)

lemma good_transfer:
  "success (fst (transferSol goodWorld ''9xQeWvG816bUx9EPjHmaT23yvVM2ZWbrrpZb9PusVFin'' (1 / 2)
         ''2Dk2je4iif7yttyGMLbjc8JrqUSMw2wqLPuHxVsJZ2Bg'' st))"
  by (simp add: transferSol_def goodWorld_def request_def LAMPORTS_PER_SOL_def Let_def)

section \<open>The safety ceilings\<close>






section \<open>One pending slot per kind\<close>






section \<open>Clearing the pending action on exit\<close>

lemma confirmSwap_clears:
  "parseConfirmationResponse c \<noteq> Invalid \<Longrightarrow> pendingSwap (snd (confirmSwap w c st)) = None"
  using executeJupiterSwap_samePending [of st w _ _]
  by (auto simp: confirmSwap_def clearPendingSwap_def getPendingSwap_def Let_def request_def
      split: response.splits option.splits sum.splits prod.splits)

lemma confirmCrossChainSwap_clears:
  "parseConfirmationResponseCC c \<noteq> Invalid \<Longrightarrow>
     pendingCrossChainSwap (snd (confirmCrossChainSwap w c st)) = None"
  by (auto simp: confirmCrossChainSwap_def clearPendingCrossChainSwap_def
      getPendingCrossChainSwap_def Let_def request_def
      split: response.splits option.splits sum.splits prod.splits)

lemma confirmTransaction_simple_clears:
  assumes "parseConfirmationCommand c = Some parsed"
    and "tx_amount parsed = - 1 \<and> tx_recipient parsed = ''SIMPLE_CONFIRMATION''
         \<or> tx_amount parsed = - 2 \<and> tx_recipient parsed = ''SIMPLE_CANCELLATION''"
  shows "pendingTransaction (snd (confirmTransaction w c st)) = None"
proof -
  have t: "pendingTransaction (snd (transferSol w k a r s)) = pendingTransaction s" for k a r s
    using transferSol_samePending [of s w k a r] by (simp add: samePending_def)
  show ?thesis
    using assms t
    by (auto simp: confirmTransaction_def Let_def split: option.splits)
qed

text \<open>
  C1 at its failing input. A transfer of 0.5 SOL is pending; the user confirms with the
  full command that the prepare step returned as \<open>confirmationCommand\<close>. The transfer is
  executed with success, and the pending transaction is still in its slot afterwards.
\<close>

theorem full_command_leaves_pending_transaction:
  "success (fst (confirmTransaction goodWorld
       ''confirm send 0.5 SOL to 2Dk2je4iif7yttyGMLbjc8JrqUSMw2wqLPuHxVsJZ2Bg'' allPending))
   \<and> pendingTransaction (snd (confirmTransaction goodWorld
       ''confirm send 0.5 SOL to 2Dk2je4iif7yttyGMLbjc8JrqUSMw2wqLPuHxVsJZ2Bg'' allPending))
     = Some examplePendingTx"
proof -
  have "pendingTransaction (snd (transferSol goodWorld
         ''9xQeWvG816bUx9EPjHmaT23yvVM2ZWbrrpZb9PusVFin'' (1 / 2)
         ''2Dk2je4iif7yttyGMLbjc8JrqUSMw2wqLPuHxVsJZ2Bg'' allPending))
      = pendingTransaction allPending"
    using transferSol_samePending [of allPending goodWorld] by (simp add: samePending_def)
  then show ?thesis
    using good_transfer [of allPending]
    by (simp add: full_command_executes allPending_def)
qed


section \<open>No expiry check at confirmation\<close>

lemma newCalls_request [simp]:
  "newCalls st (request c st') = newCalls st st' @ [c]" if "length (calls st) \<le> length (calls st')"
  using that by (simp add: newCalls_def request_def)

lemma newCalls_self [simp]: "newCalls st st = []"
  by (simp add: newCalls_def)

lemma calls_request [simp]: "calls (request c st) = calls st @ [c]"
  by (simp add: request_def)

lemma calls_clearPendingSwap [simp]: "calls (clearPendingSwap st) = calls st"
  by (simp add: clearPendingSwap_def)

lemma calls_clearPendingCrossChainSwap [simp]: "calls (clearPendingCrossChainSwap st) = calls st"
  by (simp add: clearPendingCrossChainSwap_def)

lemma newCalls_append [simp]: "newCalls st (st'\<lparr>calls := calls st @ cs\<rparr>) = cs"
  by (simp add: newCalls_def)

lemma confirmSwap_calls:
  "\<exists>cs. calls (snd (confirmSwap w c st)) = calls st @ cs \<and> \<not> list_ex isQuoteRequest cs"
  by (auto simp: confirmSwap_def executeJupiterSwap_def getPendingSwap_def Let_def
      split: response.splits option.splits sum.splits)

lemma confirmCrossChainSwap_calls:
  "\<exists>cs. calls (snd (confirmCrossChainSwap w c st)) = calls st @ cs
        \<and> \<not> list_ex isQuoteRequest cs"
  by (auto simp: confirmCrossChainSwap_def getPendingCrossChainSwap_def Let_def
      split: response.splits option.splits sum.splits)

lemma executeJupiterSwap_clock:
  "executeJupiterSwap (w\<lparr>dateNow := clock\<rparr>) q wallet st = executeJupiterSwap w q wallet st"
  by (simp add: executeJupiterSwap_def Let_def split: sum.splits option.splits)

lemma confirmSwap_clock: "confirmSwap (w\<lparr>dateNow := clock\<rparr>) c st = confirmSwap w c st"
  by (simp add: confirmSwap_def executeJupiterSwap_clock Let_def
      split: response.splits sum.splits option.splits prod.splits)

lemma confirmCrossChainSwap_clock:
  "confirmCrossChainSwap (w\<lparr>dateNow := clock\<rparr>) c st = confirmCrossChainSwap w c st"
  by (simp add: confirmCrossChainSwap_def Let_def
      split: response.splits sum.splits option.splits prod.splits)

text \<open>
  C3, as the code has it. confirmSwap and confirmCrossChainSwap make no expiry check: the
  clock has no influence on what they do, they ask no provider for a new quote, and the
  execution is attempted with the quote stored in the pending action (when Jupiter, or
  Mayan, refuses that quote, the refusal is what the tool reports).
\<close>

theorem confirm_ignores_quote_age:
  "confirmSwap (w\<lparr>dateNow := clock\<rparr>) c st = confirmSwap w c st
   \<and> confirmCrossChainSwap (w\<lparr>dateNow := clock\<rparr>) c st = confirmCrossChainSwap w c st
   \<and> \<not> list_ex isQuoteRequest (newCalls st (snd (confirmSwap w c st)))
   \<and> \<not> list_ex isQuoteRequest (newCalls st (snd (confirmCrossChainSwap w c st)))
   \<and> (parseConfirmationResponse c = Confirm \<and> getPendingSwap st = Some pending
       \<and> walletPublicKey w = Some wallet
       \<and> jupiterSwapApi w (calls (request (JupiterSwapPost wallet) st)) (ps_quote pending) = Inl e
       \<longrightarrow> message (fst (confirmSwap w c st))
             = swapErrorMessage (''Swap execution failed: '' @ e))
   \<and> (parseConfirmationResponseCC c = Confirm \<and> getPendingCrossChainSwap st = Some pendingCC
       \<and> toLowerCase (pc_fromChain pendingCC) = ''solana''
       \<and> walletPublicKey w = Some wallet
       \<and> getBalance w (calls (request (GetBalance wallet) st)) = Inr balance
       \<and> \<not> of_nat balance / LAMPORTS_PER_SOL < parseFloat (pc_amount pendingCC) + 6 / 100
       \<and> swapFromSolana w
            (calls (request (MayanSwapFromSolana wallet (pc_destinationAddress pendingCC))
                      (request (GetBalance wallet) st)))
            (pc_quote pendingCC) = Inl e
       \<longrightarrow> message (fst (confirmCrossChainSwap w c st)) = crossChainErrorMessage e)"
proof -
  have a: "\<not> list_ex isQuoteRequest (newCalls st (snd (confirmSwap w c st)))"
    using confirmSwap_calls [of w c st] by (auto simp: newCalls_def)
  have b: "\<not> list_ex isQuoteRequest (newCalls st (snd (confirmCrossChainSwap w c st)))"
    using confirmCrossChainSwap_calls [of w c st] by (auto simp: newCalls_def)
  have d: "message (fst (confirmSwap w c st)) = swapErrorMessage (''Swap execution failed: '' @ e)"
    if "parseConfirmationResponse c = Confirm" "getPendingSwap st = Some pending"
      "walletPublicKey w = Some wallet"
      "jupiterSwapApi w (calls (request (JupiterSwapPost wallet) st)) (ps_quote pending) = Inl e"
    using that by (simp add: confirmSwap_def executeJupiterSwap_def Let_def)
  have f: "message (fst (confirmCrossChainSwap w c st)) = crossChainErrorMessage e"
    if "parseConfirmationResponseCC c = Confirm" "getPendingCrossChainSwap st = Some pendingCC"
      "toLowerCase (pc_fromChain pendingCC) = ''solana''" "walletPublicKey w = Some wallet"
      "getBalance w (calls (request (GetBalance wallet) st)) = Inr balance"
      "\<not> of_nat balance / LAMPORTS_PER_SOL < parseFloat (pc_amount pendingCC) + 6 / 100"
      "swapFromSolana w
            (calls (request (MayanSwapFromSolana wallet (pc_destinationAddress pendingCC))
                      (request (GetBalance wallet) st)))
            (pc_quote pendingCC) = Inl e"
    using that by (simp add: confirmCrossChainSwap_def Let_def)
  note g = confirmSwap_clock [where w = w and clock = clock and c = c and st = st]
  note h = confirmCrossChainSwap_clock [where w = w and clock = clock and c = c and st = st]
  from a b d f g h show ?thesis by blast
qed

text \<open>
  In the example world the clock shows 200000; the stored quotes were valid until 100.
  Both confirm tools execute the swap and report success.
\<close>

theorem expired_quote_is_executed_counterexample:
  "validUntil (ps_quote examplePendingSwap) < dateNow goodWorld (calls allPending)
   \<and> success (fst (confirmSwap goodWorld ''confirm swap'' allPending))
   \<and> message (fst (confirmSwap goodWorld ''confirm swap'' allPending)) = SwapExecuted
   \<and> deadline (pc_quote examplePendingCrossChain) < dateNow goodWorld (calls allPending)
   \<and> success (fst (confirmCrossChainSwap goodWorld ''confirm swap'' allPending))
   \<and> message (fst (confirmCrossChainSwap goodWorld ''confirm swap'' allPending))
       = CrossChainSwapExecuted"
proof -
  have "validUntil (ps_quote examplePendingSwap) < dateNow goodWorld (calls allPending)"
    "deadline (pc_quote examplePendingCrossChain) < dateNow goodWorld (calls allPending)"
    by (simp_all add: examplePendingSwap_def exampleJupiterQuote_def examplePendingCrossChain_def
        exampleMayanQuote_def goodWorld_def)
  moreover have "message (fst (confirmSwap goodWorld ''confirm swap'' allPending)) = SwapExecuted"
    by (simp add: confirmSwap_def parse_confirm_swap getPendingSwap_def executeJupiterSwap_def
        request_def clearPendingSwap_def goodWorld_def allPending_def idle_def)
  moreover have "message (fst (confirmCrossChainSwap goodWorld ''confirm swap'' allPending))
       = CrossChainSwapExecuted"
    using example_amounts
    by (simp add: confirmCrossChainSwap_def parse_confirm_swap getPendingCrossChainSwap_def
      request_def clearPendingCrossChainSwap_def goodWorld_def allPending_def idle_def
      LAMPORTS_PER_SOL_def)
  ultimately show ?thesis
    using good_swap good_cc by simp
qed

theorem confirm_ignores_quote_age_witness:
  "confirmSwap (goodWorld\<lparr>dateNow := (\<lambda>h. 50)\<rparr>) ''confirm swap'' allPending
     = confirmSwap goodWorld ''confirm swap'' allPending
   \<and> \<not> list_ex isQuoteRequest
         (newCalls allPending (snd (confirmSwap goodWorld ''confirm swap'' allPending)))
   \<and> message (fst (confirmSwap servicesDown ''confirm swap'' allPending))
       = swapErrorMessage ''Swap execution failed: connect failed''
   \<and> message (fst (confirmCrossChainSwap servicesDown ''confirm swap'' allPending))
       = crossChainErrorMessage ''connect failed''"
proof -
  note good = confirm_ignores_quote_age
      [where w = goodWorld and clock = "\<lambda>h. 50" and c = "''confirm swap''" and st = allPending]
  note down = confirm_ignores_quote_age
      [where w = servicesDown and c = "''confirm swap''" and st = allPending
         and pending = examplePendingSwap and pendingCC = examplePendingCrossChain
         and wallet = "''9xQeWvG816bUx9EPjHmaT23yvVM2ZWbrrpZb9PusVFin''"
         and e = "''connect failed''" and balance = 2000000000]
  have p: "getPendingSwap allPending = Some examplePendingSwap"
    "getPendingCrossChainSwap allPending = Some examplePendingCrossChain"
    by (simp_all add: getPendingSwap_def getPendingCrossChainSwap_def allPending_def)
  have w: "walletPublicKey servicesDown = Some ''9xQeWvG816bUx9EPjHmaT23yvVM2ZWbrrpZb9PusVFin''"
    "jupiterSwapApi servicesDown h q = Inl ''connect failed''"
    "swapFromSolana servicesDown h m = Inl ''connect failed''"
    "getBalance servicesDown h = Inr 2000000000" for h q m
    by (simp_all add: servicesDown_def goodWorld_def)
  have bal: "\<not> of_nat 2000000000 / LAMPORTS_PER_SOL
                < parseFloat (pc_amount examplePendingCrossChain) + 6 / 100"
    using example_amounts(1) by (simp add: LAMPORTS_PER_SOL_def)
  have s: "message (fst (confirmSwap servicesDown ''confirm swap'' allPending))
       = swapErrorMessage ''Swap execution failed: connect failed''"
    using down parse_confirm_swap(1) p(1) w(1,2) by simp
  have x: "message (fst (confirmCrossChainSwap servicesDown ''confirm swap'' allPending))
       = crossChainErrorMessage ''connect failed''"
    using down parse_confirm_swap(2) p(2) w bal example_amounts(2) by simp
  from good s x show ?thesis by simp
qed


section \<open>Confirming or cancelling when nothing is pending\<close>

lemma transferSol_pending_update:
  "transferSol w wallet amount recipient (st\<lparr>pendingTransaction := x\<rparr>)
     = (fst (transferSol w wallet amount recipient st),
        (snd (transferSol w wallet amount recipient st))\<lparr>pendingTransaction := x\<rparr>)"
  by (simp add: transferSol_def Let_def request_def split: sum.splits option.splits)

text \<open>
  C4, as the code has it. The classification of a reply does not look at the pending
  slots. With nothing pending, a reply classified as a confirmation by confirmSwap or by
  confirmCrossChainSwap, and a simple confirmation of confirmTransaction, is answered
  with \<open>success = false\<close> and the message that no pending action was found; the state is
  returned as it was, so nothing is executed. A reply classified as a cancellation is
  answered with the cancellation message whether or not something is pending. A full
  command \<open>confirm send <amount> sol to <address>\<close> brings its own amount and recipient:
  what confirmTransaction returns for it does not depend on the pending slot.
\<close>

theorem nothing_pending_replies:
  "(getPendingSwap st = None \<and> parseConfirmationResponse c = Confirm \<longrightarrow>
      confirmSwap w c st = (failed NoPendingSwap, st))
   \<and> (getPendingCrossChainSwap st = None \<and> parseConfirmationResponseCC c = Confirm \<longrightarrow>
      confirmCrossChainSwap w c st = (failed NoPendingCrossChainSwap, st))
   \<and> (pendingTransaction st = None
       \<and> parseConfirmationCommand c
           = Some \<lparr>tx_amount = - 1, tx_recipient = ''SIMPLE_CONFIRMATION''\<rparr> \<longrightarrow>
      confirmTransaction w c st = (failed NoPendingTransaction, st))
   \<and> (parseConfirmationResponse c = Cancel \<longrightarrow>
      message (fst (confirmSwap w c st)) = SwapCancelled)
   \<and> (parseConfirmationResponseCC c = Cancel \<longrightarrow>
      message (fst (confirmCrossChainSwap w c st)) = CrossChainSwapCancelled)
   \<and> (parseConfirmationCommand c
         = Some \<lparr>tx_amount = - 2, tx_recipient = ''SIMPLE_CANCELLATION''\<rparr> \<longrightarrow>
      message (fst (confirmTransaction w c st)) = TransactionCancelled)
   \<and> (parseConfirmationCommand c = Some parsed \<and> tx_amount parsed > 0 \<longrightarrow>
      fst (confirmTransaction w c (st\<lparr>pendingTransaction := x\<rparr>))
        = fst (confirmTransaction w c st))"
proof -
  have a: "confirmSwap w c st = (failed NoPendingSwap, st)"
    if "getPendingSwap st = None" "parseConfirmationResponse c = Confirm"
    using that by (simp add: confirmSwap_def)
  have b: "confirmCrossChainSwap w c st = (failed NoPendingCrossChainSwap, st)"
    if "getPendingCrossChainSwap st = None" "parseConfirmationResponseCC c = Confirm"
    using that by (simp add: confirmCrossChainSwap_def)
  have d: "confirmTransaction w c st = (failed NoPendingTransaction, st)"
    if "pendingTransaction st = None"
      "parseConfirmationCommand c
         = Some \<lparr>tx_amount = - 1, tx_recipient = ''SIMPLE_CONFIRMATION''\<rparr>"
    using that by (simp add: confirmTransaction_def)
  have e: "message (fst (confirmSwap w c st)) = SwapCancelled"
    if "parseConfirmationResponse c = Cancel"
    using that by (simp add: confirmSwap_def)
  have f: "message (fst (confirmCrossChainSwap w c st)) = CrossChainSwapCancelled"
    if "parseConfirmationResponseCC c = Cancel"
    using that by (simp add: confirmCrossChainSwap_def)
  have g: "message (fst (confirmTransaction w c st)) = TransactionCancelled"
    if "parseConfirmationCommand c
         = Some \<lparr>tx_amount = - 2, tx_recipient = ''SIMPLE_CANCELLATION''\<rparr>"
    using that by (simp add: confirmTransaction_def)
  have h: "fst (confirmTransaction w c (st\<lparr>pendingTransaction := x\<rparr>))
        = fst (confirmTransaction w c st)"
    if "parseConfirmationCommand c = Some parsed" "tx_amount parsed > 0"
    using that
    by (auto simp: confirmTransaction_def transferSol_pending_update split: option.splits)
  from a b d e f g h show ?thesis by blast
qed

text \<open>
  Nothing is pending. The reply \<open>cancel swap\<close> is classified as a cancellation and
  answered with the cancellation message, not with a message that there is nothing to
  cancel; and the full command is classified as a confirmation and executes a transfer.
\<close>

theorem nothing_pending_counterexample:
  "pendingTransaction idle = None \<and> pendingSwap idle = None
   \<and> parseConfirmationResponse ''cancel swap'' = Cancel
   \<and> message (fst (confirmSwap goodWorld ''cancel swap'' idle)) = SwapCancelled
   \<and> success (fst (confirmTransaction goodWorld
        ''confirm send 0.5 SOL to 2Dk2je4iif7yttyGMLbjc8JrqUSMw2wqLPuHxVsJZ2Bg'' idle))
   \<and> transactionHash (fst (confirmTransaction goodWorld
        ''confirm send 0.5 SOL to 2Dk2je4iif7yttyGMLbjc8JrqUSMw2wqLPuHxVsJZ2Bg'' idle))
       = Some ''signature1''"
proof -
  have "transactionHash (fst (transferSol goodWorld
         ''9xQeWvG816bUx9EPjHmaT23yvVM2ZWbrrpZb9PusVFin'' (1 / 2)
         ''2Dk2je4iif7yttyGMLbjc8JrqUSMw2wqLPuHxVsJZ2Bg'' idle)) = Some ''signature1''"
    by (simp add: transferSol_def goodWorld_def request_def LAMPORTS_PER_SOL_def Let_def)
  then show ?thesis
    using good_transfer [of idle] parse_cancel_swap(1)
    by (simp add: full_command_executes idle_def confirmSwap_def)
qed

theorem nothing_pending_replies_witness:
  "confirmSwap goodWorld ''confirm swap'' idle = (failed NoPendingSwap, idle)
   \<and> confirmCrossChainSwap goodWorld ''confirm swap'' idle
       = (failed NoPendingCrossChainSwap, idle)
   \<and> confirmTransaction goodWorld ''yes'' idle = (failed NoPendingTransaction, idle)
   \<and> message (fst (confirmSwap goodWorld ''cancel swap'' allPending)) = SwapCancelled
   \<and> message (fst (confirmCrossChainSwap goodWorld ''cancel swap'' allPending))
       = CrossChainSwapCancelled
   \<and> message (fst (confirmTransaction goodWorld ''no'' allPending)) = TransactionCancelled
   \<and> fst (confirmTransaction goodWorld
        ''confirm send 0.5 SOL to 2Dk2je4iif7yttyGMLbjc8JrqUSMw2wqLPuHxVsJZ2Bg''
        (idle\<lparr>pendingTransaction := Some examplePendingTx\<rparr>))
      = fst (confirmTransaction goodWorld
        ''confirm send 0.5 SOL to 2Dk2je4iif7yttyGMLbjc8JrqUSMw2wqLPuHxVsJZ2Bg'' idle)"
proof -
  have n: "getPendingSwap idle = None" "getPendingCrossChainSwap idle = None"
    "pendingTransaction idle = None"
    by (simp_all add: getPendingSwap_def getPendingCrossChainSwap_def idle_def)
  note confirm = nothing_pending_replies
      [where c = "''confirm swap''" and w = goodWorld and st = idle]
  note yes = nothing_pending_replies [where c = "''yes''" and w = goodWorld and st = idle]
  note cancel = nothing_pending_replies
      [where c = "''cancel swap''" and w = goodWorld and st = allPending]
  note no = nothing_pending_replies [where c = "''no''" and w = goodWorld and st = allPending]
  note full = nothing_pending_replies
      [where c = "''confirm send 0.5 SOL to 2Dk2je4iif7yttyGMLbjc8JrqUSMw2wqLPuHxVsJZ2Bg''"
         and w = goodWorld and st = idle and x = "Some examplePendingTx"
         and parsed = "\<lparr>tx_amount = 1 / 2,
             tx_recipient = ''2Dk2je4iif7yttyGMLbjc8JrqUSMw2wqLPuHxVsJZ2Bg''\<rparr>"]
  have 1: "confirmSwap goodWorld ''confirm swap'' idle = (failed NoPendingSwap, idle)"
    using confirm n parse_confirm_swap by blast
  have 2: "confirmCrossChainSwap goodWorld ''confirm swap'' idle
       = (failed NoPendingCrossChainSwap, idle)"
    using confirm n parse_confirm_swap by blast
  have 3: "confirmTransaction goodWorld ''yes'' idle = (failed NoPendingTransaction, idle)"
    using yes n parse_simple_replies(1) by blast
  have 4: "message (fst (confirmSwap goodWorld ''cancel swap'' allPending)) = SwapCancelled"
    "message (fst (confirmCrossChainSwap goodWorld ''cancel swap'' allPending))
       = CrossChainSwapCancelled"
    using cancel parse_cancel_swap by blast+
  have 5: "message (fst (confirmTransaction goodWorld ''no'' allPending)) = TransactionCancelled"
    using no parse_simple_replies(4) by blast
  have 6: "fst (confirmTransaction goodWorld
        ''confirm send 0.5 SOL to 2Dk2je4iif7yttyGMLbjc8JrqUSMw2wqLPuHxVsJZ2Bg''
        (idle\<lparr>pendingTransaction := Some examplePendingTx\<rparr>))
      = fst (confirmTransaction goodWorld
        ''confirm send 0.5 SOL to 2Dk2je4iif7yttyGMLbjc8JrqUSMw2wqLPuHxVsJZ2Bg'' idle)"
    using full parse_confirm_send by simp
  from 1 2 3 4 5 6 show ?thesis by simp
qed


end
